theory Spec2Isabelle
  imports Complex_Main
begin

section \<open>Numbers\<close>

text \<open>
  The calculation module works on JavaScript numbers. Finite values are modelled as
  exact reals: rounding inside the range of the binary format is outside the model, so a
  result that hinges on the last bit (a \<open>Math.ceil\<close> next to an integer, a comparison
  at equality) can differ from the program's. The three non-finite values are kept apart,
  because a division by a variable and \<open>Math.log\<close> produce them from finite
  operands. Zero carries no sign. Overflow is modelled where a property is about
  non-finite results: \<open>js_overflow\<close> below sends a result outside the range of the
  format to an infinity, and the account cash-flow projector applies it after every
  operation.
\<close>

datatype jsnum = Fin real | PosInf | NegInf | NaN

fun js_neg :: "jsnum \<Rightarrow> jsnum" where
  "js_neg (Fin x) = Fin (- x)"
| "js_neg PosInf = NegInf"
| "js_neg NegInf = PosInf"
| "js_neg NaN = NaN"

text \<open>\<open>Math.log\<close> of a finite number.\<close>

definition js_log :: "real \<Rightarrow> jsnum" where
  "js_log x = (if x < 0 then NaN else if x = 0 then NegInf else Fin (ln x))"

fun js_ceil :: "jsnum \<Rightarrow> jsnum" where
  "js_ceil (Fin x) = Fin (of_int \<lceil>x\<rceil>)"
| "js_ceil v = v"

text \<open>The operator \<open>/\<close>.\<close>

fun js_divide :: "jsnum \<Rightarrow> jsnum \<Rightarrow> jsnum" where
  "js_divide NaN _ = NaN"
| "js_divide _ NaN = NaN"
| "js_divide (Fin x) (Fin y) =
     (if y = 0 then (if x = 0 then NaN else if 0 < x then PosInf else NegInf)
      else Fin (x / y))"
| "js_divide (Fin x) _ = Fin 0"
| "js_divide PosInf (Fin y) = (if 0 \<le> y then PosInf else NegInf)"
| "js_divide NegInf (Fin y) = (if 0 \<le> y then NegInf else PosInf)"
| "js_divide _ _ = NaN"

text \<open>The operator \<open>*\<close>.\<close>

fun js_times :: "jsnum \<Rightarrow> jsnum \<Rightarrow> jsnum" where
  "js_times NaN _ = NaN"
| "js_times _ NaN = NaN"
| "js_times (Fin x) (Fin y) = Fin (x * y)"
| "js_times (Fin x) PosInf = (if x = 0 then NaN else if 0 < x then PosInf else NegInf)"
| "js_times (Fin x) NegInf = (if x = 0 then NaN else if 0 < x then NegInf else PosInf)"
| "js_times PosInf (Fin y) = (if y = 0 then NaN else if 0 < y then PosInf else NegInf)"
| "js_times NegInf (Fin y) = (if y = 0 then NaN else if 0 < y then NegInf else PosInf)"
| "js_times PosInf PosInf = PosInf"
| "js_times NegInf NegInf = PosInf"
| "js_times _ _ = NegInf"

text \<open>The binary operator \<open>-\<close>.\<close>

fun js_minus :: "jsnum \<Rightarrow> jsnum \<Rightarrow> jsnum" where
  "js_minus NaN _ = NaN"
| "js_minus _ NaN = NaN"
| "js_minus (Fin x) (Fin y) = Fin (x - y)"
| "js_minus (Fin x) PosInf = NegInf"
| "js_minus (Fin x) NegInf = PosInf"
| "js_minus PosInf PosInf = NaN"
| "js_minus NegInf NegInf = NaN"
| "js_minus PosInf _ = PosInf"
| "js_minus NegInf _ = NegInf"

text \<open>The comparisons \<open><\<close> and \<open>>=\<close>; every comparison with \<open>NaN\<close> is false.\<close>

fun js_less :: "jsnum \<Rightarrow> jsnum \<Rightarrow> bool" where
  "js_less NaN _ = False"
| "js_less _ NaN = False"
| "js_less (Fin x) (Fin y) = (x < y)"
| "js_less _ NegInf = False"
| "js_less PosInf _ = False"
| "js_less _ _ = True"

fun js_ge :: "jsnum \<Rightarrow> jsnum \<Rightarrow> bool" where
  "js_ge NaN _ = False"
| "js_ge _ NaN = False"
| "js_ge a b = (\<not> js_less a b)"

text \<open>\<open>Math.max\<close> and \<open>Math.min\<close> of two numbers: \<open>NaN\<close> if either is.\<close>

fun js_max :: "jsnum \<Rightarrow> jsnum \<Rightarrow> jsnum" where
  "js_max NaN _ = NaN"
| "js_max _ NaN = NaN"
| "js_max a b = (if js_less a b then b else a)"

fun js_min :: "jsnum \<Rightarrow> jsnum \<Rightarrow> jsnum" where
  "js_min NaN _ = NaN"
| "js_min _ NaN = NaN"
| "js_min a b = (if js_less b a then b else a)"

fun is_finite :: "jsnum \<Rightarrow> bool" where
  "is_finite (Fin _) = True"
| "is_finite _ = False"

text \<open>The binary operator \<open>+\<close>.\<close>

fun js_plus :: "jsnum \<Rightarrow> jsnum \<Rightarrow> jsnum" where
  "js_plus NaN _ = NaN"
| "js_plus _ NaN = NaN"
| "js_plus (Fin x) (Fin y) = Fin (x + y)"
| "js_plus (Fin x) v = v"
| "js_plus PosInf NegInf = NaN"
| "js_plus NegInf PosInf = NaN"
| "js_plus v _ = v"

text \<open>
  Rounding to nearest turns an exact result into an infinity from half a unit in the
  last place above the largest finite number on, that is from \<open>2^1024 - 2^970\<close>.
\<close>

definition overflowBound :: real where
  "overflowBound = 2 ^ 1024 - 2 ^ 970"

fun js_overflow :: "jsnum \<Rightarrow> jsnum" where
  "js_overflow (Fin x) =
     (if overflowBound \<le> x then PosInf else if x \<le> - overflowBound then NegInf else Fin x)"
| "js_overflow v = v"

text \<open>The four operators with overflow.\<close>

definition num_plus :: "jsnum \<Rightarrow> jsnum \<Rightarrow> jsnum" where
  "num_plus a b = js_overflow (js_plus a b)"

definition num_minus :: "jsnum \<Rightarrow> jsnum \<Rightarrow> jsnum" where
  "num_minus a b = js_overflow (js_minus a b)"

definition num_times :: "jsnum \<Rightarrow> jsnum \<Rightarrow> jsnum" where
  "num_times a b = js_overflow (js_times a b)"

definition num_divide :: "jsnum \<Rightarrow> jsnum \<Rightarrow> jsnum" where
  "num_divide a b = js_overflow (js_divide a b)"


section \<open>Frequency normalisation\<close>

text \<open>
  \<open>calculateMonthlyIncome\<close>: a \<open>switch\<close> on the frequency string with four cases
  and a \<open>default\<close> that computes the bi-weekly conversion.
\<close>

definition calculateMonthlyIncome :: "real \<Rightarrow> string \<Rightarrow> real" where
  "calculateMonthlyIncome paycheckAmount frequency =
     (if frequency = ''weekly'' then paycheckAmount * 52 / 12
      else if frequency = ''bi-weekly'' then paycheckAmount * 26 / 12
      else if frequency = ''semi-monthly'' then paycheckAmount * 2
      else if frequency = ''monthly'' then paycheckAmount
      else paycheckAmount * 26 / 12)"

text \<open>
  The conversion of a bill's amount inside \<open>calculateAccountBalances\<close>: a
  \<open>switch\<close> on the bill's frequency whose \<open>default\<close> shares the \<open>monthly\<close> branch.
\<close>

definition billMonthlyAmount :: "real \<Rightarrow> string \<Rightarrow> real" where
  "billMonthlyAmount amount frequency =
     (if frequency = ''weekly'' then amount * 52 / 12
      else if frequency = ''bi-weekly'' then amount * 26 / 12
      else if frequency = ''quarterly'' then amount / 3
      else if frequency = ''annual'' then amount / 12
      else amount)"

text \<open>
  The same two switches on numbers with overflow, as \<open>calculateAccountBalances\<close>
  runs them. Inside the range they agree with the exact versions above.
\<close>

definition monthlyIncomeNum :: "real \<Rightarrow> string \<Rightarrow> jsnum" where
  "monthlyIncomeNum paycheckAmount frequency =
     (if frequency = ''weekly''
        then num_divide (num_times (Fin paycheckAmount) (Fin 52)) (Fin 12)
      else if frequency = ''bi-weekly''
        then num_divide (num_times (Fin paycheckAmount) (Fin 26)) (Fin 12)
      else if frequency = ''semi-monthly'' then num_times (Fin paycheckAmount) (Fin 2)
      else if frequency = ''monthly'' then Fin paycheckAmount
      else num_divide (num_times (Fin paycheckAmount) (Fin 26)) (Fin 12))"

definition billMonthlyNum :: "real \<Rightarrow> string \<Rightarrow> jsnum" where
  "billMonthlyNum amount frequency =
     (if frequency = ''weekly'' then num_divide (num_times (Fin amount) (Fin 52)) (Fin 12)
      else if frequency = ''bi-weekly'' then num_divide (num_times (Fin amount) (Fin 26)) (Fin 12)
      else if frequency = ''quarterly'' then num_divide (Fin amount) (Fin 3)
      else if frequency = ''annual'' then num_divide (Fin amount) (Fin 12)
      else Fin amount)"

text \<open>The frequency tags of the specification's closed enumeration.\<close>

definition recognizedFrequencies :: "string list" where
  "recognizedFrequencies =
     [''weekly'', ''bi-weekly'', ''semi-monthly'', ''monthly'', ''quarterly'', ''annual'']"


section \<open>Calendar dates\<close>

text \<open>
  The module reads two things from the environment: the clock (\<open>new Date()\<close>) and the
  engine's date parser (\<open>new Date(str)\<close>). Both are parameters of the functions that
  use them. The parser below is the one instance used for concrete runs: it reads the
  date form \<open>YYYY-MM-DD\<close> and the date-time form \<open>YYYY-MM-DDTHH:MM:SS\<close> of the
  language's date-time string format. Strings of any other shape go to an engine's
  fallback parser, which the instance does not model: it gives them the invalid date.
\<close>

definition digitVal :: "char \<Rightarrow> nat option" where
  "digitVal c =
     (let n = (of_char c :: nat) in if 48 \<le> n \<and> n \<le> 57 then Some (n - 48) else None)"

fun numOf :: "nat \<Rightarrow> string \<Rightarrow> nat option" where
  "numOf acc [] = Some acc"
| "numOf acc (c # cs) =
     (case digitVal c of None \<Rightarrow> None | Some d \<Rightarrow> numOf (10 * acc + d) cs)"

definition leapYear :: "nat \<Rightarrow> bool" where
  "leapYear y = (y mod 4 = 0 \<and> (0 < y mod 100 \<or> y mod 400 = 0))"

definition daysInMonth :: "nat \<Rightarrow> nat \<Rightarrow> nat" where
  "daysInMonth y m =
     (if m = 2 then (if leapYear y then 29 else 28)
      else if m = 4 \<or> m = 6 \<or> m = 9 \<or> m = 11 then 30 else 31)"

text \<open>
  Year, month (1 to 12) and day of a \<open>YYYY-MM-DD\<close> string. A day up to 31 that the
  month does not have runs over into the next month (\<open>2025-02-30\<close> is 2 March 2025),
  as the engine that runs the application reads it.
\<close>

definition parseISODate :: "string \<Rightarrow> (nat \<times> nat \<times> nat) option" where
  "parseISODate s =
     (if length s = 10 \<and> s ! 4 = CHR ''-'' \<and> s ! 7 = CHR ''-'' then
        (case (numOf 0 (take 4 s), numOf 0 (take 2 (drop 5 s)), numOf 0 (drop 8 s)) of
           (Some y, Some m, Some d) \<Rightarrow>
             if 1 \<le> m \<and> m \<le> 12 \<and> 1 \<le> d \<and> d \<le> 31 then
               (if d \<le> daysInMonth y m then Some (y, m, d)
                else Some (y, m + 1, d - daysInMonth y m))
             else None
         | _ \<Rightarrow> None)
      else None)"

text \<open>
  A date-time string without offset is local time, so \<open>getFullYear\<close> and
  \<open>getMonth\<close> (counted from 0) of the parsed date are the year and month of the
  date read from the string. \<open>None\<close> is the invalid date.
\<close>

definition isoLocalYearMonth :: "string \<Rightarrow> (int \<times> nat) option" where
  "isoLocalYearMonth s =
     (if length s = 19 \<and> s ! 10 = CHR ''T'' \<and> s ! 13 = CHR '':'' \<and> s ! 16 = CHR '':'' then
        (case (parseISODate (take 10 s), numOf 0 (take 2 (drop 11 s)),
               numOf 0 (take 2 (drop 14 s)), numOf 0 (drop 17 s)) of
           (Some (y, m, d), Some hh, Some mm, Some ss) \<Rightarrow>
             if hh < 24 \<and> mm < 60 \<and> ss < 60 then Some (int y, m - 1) else None
         | _ \<Rightarrow> None)
      else None)"

text \<open>Days from 1970-01-01 to a civil date.\<close>

definition daysFromCivil :: "int \<Rightarrow> int \<Rightarrow> int \<Rightarrow> int" where
  "daysFromCivil y m d =
     (let y' = (if m \<le> 2 then y - 1 else y);
          era = y' div 400;
          yoe = y' - era * 400;
          doy = (153 * (if 2 < m then m - 3 else m + 9) + 2) div 5 + d - 1;
          doe = yoe * 365 + yoe div 4 - yoe div 100 + doy
      in era * 146097 + doe - 719468)"

text \<open>A date-only string is midnight UTC; the result is \<open>getTime()\<close> in milliseconds.\<close>

definition isoUtcTime :: "string \<Rightarrow> int option" where
  "isoUtcTime s =
     (case parseISODate s of
        None \<Rightarrow> None
      | Some (y, m, d) \<Rightarrow> Some (daysFromCivil (int y) (int m) (int d) * 86400000))"


section \<open>Current-month income\<close>

text \<open>
  \<open>calculateCurrentMonthIncome\<close>. \<open>localDate\<close> is the engine's
  \<open>new Date(str)\<close> followed by \<open>getFullYear\<close> and \<open>getMonth\<close>;
  \<open>currentMonth\<close> and \<open>currentYear\<close> are those of \<open>new Date()\<close>.
\<close>

definition inCurrentMonth :: "(string \<Rightarrow> (int \<times> nat) option) \<Rightarrow> nat \<Rightarrow> int \<Rightarrow> string \<Rightarrow> bool" where
  "inCurrentMonth localDate currentMonth currentYear dateStr =
     (case localDate (dateStr @ ''T00:00:00'') of
        None \<Rightarrow> False
      | Some (y, m) \<Rightarrow> m = currentMonth \<and> y = currentYear)"

definition calculateCurrentMonthIncome ::
  "(string \<Rightarrow> (int \<times> nat) option) \<Rightarrow> nat \<Rightarrow> int \<Rightarrow> real \<Rightarrow> string \<Rightarrow> string list \<Rightarrow> real" where
  "calculateCurrentMonthIncome localDate currentMonth currentYear paycheckAmount frequency payDates =
     (let paychecksThisMonth =
            length (filter (inCurrentMonth localDate currentMonth currentYear) payDates)
      in if length payDates = 0 then calculateMonthlyIncome paycheckAmount frequency
         else paycheckAmount * real paychecksThisMonth)"


section \<open>Account cash flow\<close>

record Account =
  a_id :: string
  a_nickname :: string
  a_currentBalance :: real
  a_payrollPercentage :: real

record Bill =
  b_accountId :: string
  b_amount :: real
  b_frequency :: string
  b_isActive :: bool

record Settings =
  paycheckAmount :: real
  payFrequency :: string

record AccountBalanceInfo =
  accountId :: string
  accountName :: string
  startingBalance :: real
  monthlyInflow :: jsnum
  monthlyOutflow :: jsnum
  endingBalance :: jsnum
  billsCount :: nat
  utilization :: jsnum

text \<open>
  The callback of \<open>accounts.map\<close> in \<open>calculateAccountBalances\<close>. The stored
  amounts are finite numbers; every operation on them can overflow.
\<close>

definition accountBalanceInfo :: "jsnum \<Rightarrow> Bill list \<Rightarrow> Account \<Rightarrow> AccountBalanceInfo" where
  "accountBalanceInfo monthlyIncome bills account =
     (let accountBills = filter (\<lambda>bill. b_accountId bill = a_id account \<and> b_isActive bill) bills;
          inflow = num_divide (num_times monthlyIncome (Fin (a_payrollPercentage account)))
                              (Fin 100);
          outflow = foldl (\<lambda>sum bill.
                             num_plus sum (billMonthlyNum (b_amount bill) (b_frequency bill)))
                      (Fin 0) accountBills;
          ending = num_minus (num_plus (Fin (a_currentBalance account)) inflow) outflow;
          util = (if js_less (Fin 0) inflow
                  then num_times (num_divide outflow inflow) (Fin 100)
                  else Fin 0)
      in \<lparr> accountId = a_id account, accountName = a_nickname account,
           startingBalance = a_currentBalance account, monthlyInflow = inflow,
           monthlyOutflow = outflow, endingBalance = ending,
           billsCount = length accountBills, utilization = util \<rparr>)"

definition calculateAccountBalances :: "Account list \<Rightarrow> Bill list \<Rightarrow> Settings \<Rightarrow> AccountBalanceInfo list" where
  "calculateAccountBalances accounts bills settings =
     (let monthlyIncome = monthlyIncomeNum (paycheckAmount settings) (payFrequency settings)
      in map (accountBalanceInfo monthlyIncome bills) accounts)"


section \<open>Budget recommendations\<close>

datatype recType = RecError | RecWarning | RecSuggestion

record Recommendation =
  r_type :: recType
  r_message :: string
  r_action :: string

text \<open>
  \<open>getBudgetRecommendations\<close>. \<open>formatPercentage\<close> renders a number with two
  decimals; it only feeds message texts and is a parameter here. The three global
  checks push in turn, then the loop over the account balances pushes one warning per
  balance whose utilization exceeds 90. The balances are computed from the accounts, an
  empty bill list and a fixed settings object, as in the source.
\<close>

definition utilizationWarning :: "AccountBalanceInfo \<Rightarrow> Recommendation" where
  "utilizationWarning balance =
     \<lparr> r_type = RecWarning,
       r_message = accountName balance @ '' account is over 90% utilized.'',
       r_action = ''Consider increasing allocation or reducing bills in this account'' \<rparr>"

definition allocationChecks :: "(real \<Rightarrow> string) \<Rightarrow> real \<Rightarrow> Recommendation list" where
  "allocationChecks formatPercentage totalAllocated =
     (let r0 = [];
          r1 = (if 100 < totalAllocated then
                  r0 @ [\<lparr> r_type = RecError,
                          r_message = ''Your budget exceeds 100% by ''
                            @ formatPercentage (totalAllocated - 100)
                            @ ''. You need to reduce allocations.'',
                          r_action = ''Reduce account percentages or increase income'' \<rparr>]
                else r0);
          r2 = (if 95 < totalAllocated \<and> totalAllocated \<le> 100 then
                  r1 @ [\<lparr> r_type = RecWarning,
                          r_message = ''Budget uses '' @ formatPercentage totalAllocated
                            @ '' of income. Consider leaving more buffer.'',
                          r_action = ''Reduce some account percentages to leave 5-10% buffer'' \<rparr>]
                else r1);
          r3 = (if totalAllocated < 80 then
                  r2 @ [\<lparr> r_type = RecSuggestion,
                          r_message = ''You have '' @ formatPercentage (100 - totalAllocated)
                            @ '' unallocated income.'',
                          r_action = ''Consider increasing savings, emergency fund, or debt payments'' \<rparr>]
                else r2)
      in r3)"

definition getBudgetRecommendations :: "(real \<Rightarrow> string) \<Rightarrow> Account list \<Rightarrow> real \<Rightarrow> Recommendation list" where
  "getBudgetRecommendations formatPercentage accounts totalAllocated =
     (let accountBalances =
            calculateAccountBalances accounts []
              \<lparr> paycheckAmount = 1000, payFrequency = ''bi-weekly'' \<rparr>
      in foldl (\<lambda>recommendations balance.
                  if js_less (Fin 90) (utilization balance)
                  then recommendations @ [utilizationWarning balance]
                  else recommendations)
               (allocationChecks formatPercentage totalAllocated) accountBalances)"


section \<open>Debt payoff simulation\<close>

record Debt =
  d_id :: string
  d_currentBalance :: real
  d_minimumPayment :: real
  d_interestRate :: real

text \<open>A working debt is the debt with its mutable \<open>remainingBalance\<close>.\<close>

record WorkingDebt = Debt +
  remainingBalance :: real

text \<open>
  The variables of \<open>calculateDebtPayoffStrategy\<close> that the loop changes.
  \<open>freedUpPayment\<close> is declared inside the \<open>while\<close> body, so every month starts it at 0.
\<close>

record SimState =
  workingDebts :: "WorkingDebt list"
  timeline :: "(nat \<times> string \<times> real) list"
  monthlyPayments :: "(string \<times> real) list"
  totalInterest :: real
  month :: nat
  freedUpPayment :: real

text \<open>
  The returned object. Its fields \<open>totalInterest\<close>, \<open>monthlyPayments\<close> and
  \<open>timeline\<close> are written \<open>resultInterest\<close>, \<open>resultPayments\<close> and
  \<open>resultTimeline\<close>, the plain names being the loop variables above.
\<close>

record DebtPayoffStrategy =
  strategyName :: string
  resultInterest :: real
  payoffTime :: nat
  resultPayments :: "(string \<times> real) list"
  resultTimeline :: "(nat \<times> string \<times> real) list"

text \<open>\<open>Array.prototype.findIndex\<close>: the first index that satisfies the test, or -1.\<close>

fun findIndex :: "('a \<Rightarrow> bool) \<Rightarrow> 'a list \<Rightarrow> int" where
  "findIndex P [] = -1"
| "findIndex P (x # xs) =
     (if P x then 0 else (let i = findIndex P xs in if i < 0 then -1 else i + 1))"

text \<open>
  \<open>monthlyPayments.find(p => p.debtId === debt.id)\<close> followed by the assignment to
  the entry found: the first entry of that id is overwritten.
\<close>

fun setFirstPayment :: "string \<Rightarrow> real \<Rightarrow> (string \<times> real) list \<Rightarrow> (string \<times> real) list" where
  "setFirstPayment k v [] = []"
| "setFirstPayment k v (p # ps) =
     (if fst p = k then (k, v) # ps else p # setFirstPayment k v ps)"

text \<open>
  The payment of the debt at \<open>index\<close>: its minimum payment, plus the extra payment and
  the payments freed so far this month when the debt is the first one with a positive
  balance, capped at balance plus interest.
\<close>

definition paymentFor :: "real \<Rightarrow> SimState \<Rightarrow> nat \<Rightarrow> real" where
  "paymentFor availableExtraPayment st index =
     (let debt = workingDebts st ! index;
          monthlyInterest = (remainingBalance debt * d_interestRate debt / 100) / 12;
          payment = d_minimumPayment debt;
          payment = (if int index = findIndex (\<lambda>d. 0 < remainingBalance d) (workingDebts st)
                     then payment + (availableExtraPayment + freedUpPayment st)
                     else payment)
      in min payment (remainingBalance debt + monthlyInterest))"

text \<open>The callback of \<open>workingDebts.forEach\<close>, for an index inside the array.\<close>

definition payDebt :: "real \<Rightarrow> nat \<Rightarrow> SimState \<Rightarrow> SimState" where
  "payDebt availableExtraPayment index st =
     (let debt = workingDebts st ! index in
      if remainingBalance debt \<le> 0 then st
      else
        let monthlyInterest = (remainingBalance debt * d_interestRate debt / 100) / 12;
            payment = paymentFor availableExtraPayment st index;
            newBalance = max 0 (remainingBalance debt + monthlyInterest - payment);
            debt' = debt\<lparr> remainingBalance := newBalance \<rparr>
        in st\<lparr> workingDebts := (workingDebts st)[index := debt'],
               totalInterest := totalInterest st + monthlyInterest,
               monthlyPayments :=
                 (if month st = 1 then setFirstPayment (d_id debt) payment (monthlyPayments st)
                  else monthlyPayments st),
               freedUpPayment :=
                 (if newBalance \<le> 0 then freedUpPayment st + d_minimumPayment debt
                  else freedUpPayment st),
               timeline := timeline st @ [(month st, d_id debt, newBalance)] \<rparr>)"

text \<open>One turn of the \<open>while\<close> body.\<close>

definition monthPass :: "real \<Rightarrow> SimState \<Rightarrow> SimState" where
  "monthPass availableExtraPayment st =
     fold (payDebt availableExtraPayment) [0 ..< length (workingDebts st)]
       (st\<lparr> month := month st + 1, freedUpPayment := 0 \<rparr>)"

definition anyUnpaid :: "SimState \<Rightarrow> bool" where
  "anyUnpaid st = list_ex (\<lambda>debt. 0 < remainingBalance debt) (workingDebts st)"

text \<open>The \<open>while\<close> loop; \<open>None\<close> is a loop that never ends.\<close>

partial_function (option) payoffLoop :: "real \<Rightarrow> SimState \<Rightarrow> SimState option" where
  "payoffLoop availableExtraPayment st =
     (if anyUnpaid st then payoffLoop availableExtraPayment (monthPass availableExtraPayment st)
      else Some st)"

declare payoffLoop.simps [code]

definition initialState :: "Debt list \<Rightarrow> SimState" where
  "initialState sortedDebts =
     \<lparr> workingDebts = map (\<lambda>debt. Debt.extend debt \<lparr> remainingBalance = d_currentBalance debt \<rparr>) sortedDebts,
       timeline = [],
       monthlyPayments = map (\<lambda>debt. (d_id debt, d_minimumPayment debt)) sortedDebts,
       totalInterest = 0,
       month = 0,
       freedUpPayment = 0 \<rparr>"

definition calculateDebtPayoffStrategy :: "Debt list \<Rightarrow> real \<Rightarrow> string \<Rightarrow> DebtPayoffStrategy option" where
  "calculateDebtPayoffStrategy sortedDebts extraPayment name =
     (case payoffLoop extraPayment (initialState sortedDebts) of
        None \<Rightarrow> None
      | Some st \<Rightarrow>
          Some \<lparr> strategyName = name, resultInterest = totalInterest st, payoffTime = month st,
                 resultPayments = monthlyPayments st, resultTimeline = timeline st \<rparr>)"

text \<open>
  The sorts are stable and compare finite numbers: ascending balance for the snowball,
  descending rate for the avalanche.
\<close>

definition calculateDebtSnowball :: "Debt list \<Rightarrow> real \<Rightarrow> DebtPayoffStrategy option" where
  "calculateDebtSnowball debts extraPayment =
     calculateDebtPayoffStrategy (sort_key d_currentBalance debts) extraPayment ''Debt Snowball''"

definition calculateDebtAvalanche :: "Debt list \<Rightarrow> real \<Rightarrow> DebtPayoffStrategy option" where
  "calculateDebtAvalanche debts extraPayment =
     calculateDebtPayoffStrategy (sort_key (\<lambda>debt. - d_interestRate debt) debts) extraPayment
       ''Debt Avalanche''"


section \<open>Closed-form payoff helpers\<close>

definition calculatePayoffTime :: "real \<Rightarrow> real \<Rightarrow> real \<Rightarrow> jsnum" where
  "calculatePayoffTime balance monthlyPayment interestRate =
     (if monthlyPayment \<le> 0 \<or> balance \<le> 0 then Fin 0
      else
        let monthlyInterestRate = interestRate / 100 / 12 in
        if monthlyInterestRate \<le> 0 then js_ceil (js_divide (Fin balance) (Fin monthlyPayment))
        else
          let months =
                js_divide
                  (js_neg (js_log (1 - (balance * monthlyInterestRate) / monthlyPayment)))
                  (js_log (1 + monthlyInterestRate))
          in js_ceil months)"

definition calculateTotalInterest :: "real \<Rightarrow> real \<Rightarrow> real \<Rightarrow> jsnum" where
  "calculateTotalInterest balance monthlyPayment interestRate =
     (let months = calculatePayoffTime balance monthlyPayment interestRate
      in js_max (Fin 0) (js_minus (js_times months (Fin monthlyPayment)) (Fin balance)))"


section \<open>Goal progress\<close>

record SavingsGoal =
  g_targetAmount :: real
  g_currentAmount :: real
  g_targetDate :: string
  g_monthlyContribution :: real

record GoalProgress =
  progressPercentage :: jsnum
  monthsRemaining :: jsnum
  onTrack :: bool

text \<open>
  \<open>calculateGoalProgress\<close>. \<open>timeOf\<close> is the engine's \<open>new Date(str).getTime()\<close>
  (\<open>None\<close> for an invalid date) and \<open>now\<close> is \<open>new Date().getTime()\<close>, both in
  milliseconds.
\<close>

definition calculateGoalProgress :: "(string \<Rightarrow> int option) \<Rightarrow> int \<Rightarrow> SavingsGoal \<Rightarrow> GoalProgress" where
  "calculateGoalProgress timeOf now goal =
     (let progress =
            js_min (js_times (js_divide (Fin (g_currentAmount goal)) (Fin (g_targetAmount goal)))
                             (Fin 100))
                   (Fin 100);
          targetTime = (case timeOf (g_targetDate goal) of
                          None \<Rightarrow> NaN | Some t \<Rightarrow> Fin (real_of_int t));
          months = js_max (Fin 0)
                     (js_ceil (js_divide (js_minus targetTime (Fin (real_of_int now)))
                                         (Fin (1000 * 60 * 60 * 24 * 30))));
          remainingAmount = g_targetAmount goal - g_currentAmount goal;
          requiredMonthlyContribution =
            (if js_less (Fin 0) months then js_divide (Fin remainingAmount) months else Fin 0);
          track = (js_ge (Fin (g_monthlyContribution goal)) requiredMonthlyContribution
                   \<or> js_ge progress (Fin 100))
      in \<lparr> progressPercentage = progress, monthsRemaining = months, onTrack = track \<rparr>)"


section \<open>Sample data\<close>

text \<open>The records used where a property is run on a concrete input.\<close>

definition billsAccount :: Account where
  "billsAccount = \<lparr> a_id = ''bills'', a_nickname = ''Bills'', a_currentBalance = 0,
                      a_payrollPercentage = 10 \<rparr>"

definition spareAccount :: Account where
  "spareAccount = \<lparr> a_id = ''spare'', a_nickname = ''Spare'', a_currentBalance = 50,
                      a_payrollPercentage = 0 \<rparr>"

definition rentBill :: Bill where
  "rentBill = \<lparr> b_accountId = ''bills'', b_amount = 500, b_frequency = ''monthly'',
                  b_isActive = True \<rparr>"

definition hugeBill :: Bill where
  "hugeBill = \<lparr> b_accountId = ''bills'', b_amount = 10 ^ 308, b_frequency = ''weekly'',
                  b_isActive = True \<rparr>"

definition hugeSettings :: Settings where
  "hugeSettings = \<lparr> paycheckAmount = 10 ^ 308, payFrequency = ''weekly'' \<rparr>"

definition biweeklySettings :: Settings where
  "biweeklySettings = \<lparr> paycheckAmount = 1000, payFrequency = ''bi-weekly'' \<rparr>"

definition overdueGoal :: SavingsGoal where
  "overdueGoal = \<lparr> g_targetAmount = 1000, g_currentAmount = 500, g_targetDate = ''2024-01-01'',
                     g_monthlyContribution = 100 \<rparr>"

definition cardDebt :: Debt where
  "cardDebt = \<lparr> d_id = ''card'', d_currentBalance = 100, d_minimumPayment = 100,
                  d_interestRate = 0 \<rparr>"

definition loanDebt :: Debt where
  "loanDebt = \<lparr> d_id = ''loan'', d_currentBalance = 1000, d_minimumPayment = 100,
                  d_interestRate = 0 \<rparr>"

definition carDebt :: Debt where
  "carDebt = \<lparr> d_id = ''car'', d_currentBalance = 300, d_minimumPayment = 100,
                 d_interestRate = 12 \<rparr>"

definition growingDebt :: Debt where
  "growingDebt = \<lparr> d_id = ''growing'', d_currentBalance = 5000, d_minimumPayment = 50,
                     d_interestRate = 24 \<rparr>"

text \<open>
  The states of a run on a single debt with minimum payment \<open>m\<close> and rate \<open>r\<close>
  whose balance is at least \<open>b\<close>.
\<close>

definition stuckAbove :: "real \<Rightarrow> real \<Rightarrow> real \<Rightarrow> SimState \<Rightarrow> bool" where
  "stuckAbove b m r s =
     (case workingDebts s of
        [w] \<Rightarrow> b \<le> remainingBalance w \<and> d_minimumPayment w = m \<and> d_interestRate w = r
      | _ \<Rightarrow> False)"


section \<open>Frequency normalisation: properties\<close>

lemma unrecognized_not_listed:
  "frequency \<notin> set recognizedFrequencies \<Longrightarrow>
     frequency \<noteq> ''weekly'' \<and> frequency \<noteq> ''bi-weekly'' \<and> frequency \<noteq> ''semi-monthly'' \<and>
     frequency \<noteq> ''monthly'' \<and> frequency \<noteq> ''quarterly'' \<and> frequency \<noteq> ''annual''"
  by (simp add: recognizedFrequencies_def)

text \<open>
  C4, as the code has it: a frequency string outside the enumeration raises nothing.
  \<open>calculateMonthlyIncome\<close> returns the amount times 26/12, which is its bi-weekly
  conversion, and the bill conversion of \<open>calculateAccountBalances\<close> returns the
  amount unchanged, which is its monthly conversion.
\<close>

theorem unrecognized_frequency_defaults:
  assumes "frequency \<notin> set recognizedFrequencies"
  shows "calculateMonthlyIncome amount frequency = amount * 26 / 12
       \<and> calculateMonthlyIncome amount frequency = calculateMonthlyIncome amount ''bi-weekly''
       \<and> billMonthlyAmount amount frequency = amount
       \<and> billMonthlyAmount amount frequency = billMonthlyAmount amount ''monthly''"
  using unrecognized_not_listed [OF assms]
  by (simp add: calculateMonthlyIncome_def billMonthlyAmount_def)

theorem unrecognized_frequency_defaults_witness:
  "''fortnightly'' \<notin> set recognizedFrequencies
   \<and> calculateMonthlyIncome 1200 ''fortnightly'' = 1200 * 26 / 12
   \<and> billMonthlyAmount 90 ''fortnightly'' = 90"
proof -
  have h: "''fortnightly'' \<notin> set recognizedFrequencies"
    by (simp add: recognizedFrequencies_def)
  from unrecognized_frequency_defaults [OF h, of 1200]
       unrecognized_frequency_defaults [OF h, of 90] h
  show ?thesis by simp
qed

text \<open>
  C4 as stated fails: the tag \<open>fortnightly\<close> is outside the enumeration, and a
  paycheck of 1200 tagged with it is normalised to 2600, the bi-weekly figure; a bill
  of 90 tagged with it is taken as monthly.
\<close>

theorem invalid_frequency_counterexample:
  "''fortnightly'' \<notin> set recognizedFrequencies
   \<and> calculateMonthlyIncome 1200 ''fortnightly'' = 2600
   \<and> calculateMonthlyIncome 1200 ''fortnightly'' = calculateMonthlyIncome 1200 ''bi-weekly''
   \<and> billMonthlyAmount 90 ''fortnightly'' = billMonthlyAmount 90 ''monthly''"
  by (simp add: recognizedFrequencies_def calculateMonthlyIncome_def billMonthlyAmount_def)


section \<open>Current-month income: properties\<close>

lemma inCurrentMonth_iff:
  "inCurrentMonth localDate currentMonth currentYear dateStr
     = (localDate (dateStr @ ''T00:00:00'') = Some (currentYear, currentMonth))"
  by (auto simp: inCurrentMonth_def split: option.splits)

lemma parsed_dates:
  "isoLocalYearMonth ''2024-08-01T00:00:00'' = Some (2024, 7)"
  "isoLocalYearMonth ''2024-08-15T00:00:00'' = Some (2024, 7)"
  "isoLocalYearMonth ''2024-08-29T00:00:00'' = Some (2024, 7)"
  "isoLocalYearMonth ''2024-07-31T00:00:00'' = Some (2024, 6)"
  "isoLocalYearMonth ''2024-09-12T00:00:00'' = Some (2024, 8)"
  "isoLocalYearMonth ''2023-08-15T00:00:00'' = Some (2023, 7)"
  by (simp_all add: isoLocalYearMonth_def parseISODate_def digitVal_def daysInMonth_def)

text \<open>
  C7: with a non-empty list of pay dates the income of the current month is the
  paycheck amount times the number of listed dates that the parser reads as a day of the
  current month and year; with an empty list it is the frequency average: 52/12 of the
  amount for weekly, 2 for semi-monthly, 1 for monthly and 26/12 for bi-weekly and any
  other tag. A bi-weekly paycheck of 1500 with the pay dates 2024-08-01,
  2024-08-15 and 2024-08-29 gives 4500 in August 2024 (month index 7), also when dates
  of other months and of August 2023 are listed with them; the average is 3250.
\<close>

theorem current_month_income:
  "(payDates \<noteq> [] \<longrightarrow>
      calculateCurrentMonthIncome localDate currentMonth currentYear amount freq payDates
        = amount
            * real (card {i. i < length payDates
                           \<and> localDate (payDates ! i @ ''T00:00:00'')
                               = Some (currentYear, currentMonth)}))
   \<and> calculateCurrentMonthIncome localDate currentMonth currentYear amount freq []
        = calculateMonthlyIncome amount freq
   \<and> calculateCurrentMonthIncome localDate currentMonth currentYear amount freq []
        = (if freq = ''weekly'' then amount * 52 / 12
           else if freq = ''semi-monthly'' then amount * 2
           else if freq = ''monthly'' then amount
           else amount * 26 / 12)
   \<and> calculateCurrentMonthIncome localDate currentMonth currentYear amount ''weekly'' []
        = amount * 52 / 12
   \<and> calculateCurrentMonthIncome localDate currentMonth currentYear amount ''bi-weekly'' []
        = amount * 26 / 12
   \<and> calculateCurrentMonthIncome localDate currentMonth currentYear amount ''semi-monthly'' []
        = amount * 2
   \<and> calculateCurrentMonthIncome localDate currentMonth currentYear amount ''monthly'' []
        = amount
   \<and> calculateCurrentMonthIncome isoLocalYearMonth 7 2024 1500 ''bi-weekly''
        [''2024-08-01'', ''2024-08-15'', ''2024-08-29''] = 4500
   \<and> calculateCurrentMonthIncome isoLocalYearMonth 7 2024 1500 ''bi-weekly''
        [''2024-07-31'', ''2024-08-01'', ''2024-08-15'', ''2023-08-15'', ''2024-08-29'',
         ''2024-09-12''] = 4500
   \<and> calculateCurrentMonthIncome isoLocalYearMonth 7 2024 1500 ''bi-weekly'' [] = 3250"
proof (intro conjI impI)
  assume "payDates \<noteq> []"
  then show "calculateCurrentMonthIncome localDate currentMonth currentYear amount freq payDates
        = amount
            * real (card {i. i < length payDates
                           \<and> localDate (payDates ! i @ ''T00:00:00'')
                               = Some (currentYear, currentMonth)})"
    by (simp add: calculateCurrentMonthIncome_def length_filter_conv_card inCurrentMonth_iff)
qed (simp_all add: calculateCurrentMonthIncome_def calculateMonthlyIncome_def inCurrentMonth_iff
       parsed_dates)

theorem current_month_income_witness:
  "[''2024-08-01'', ''2024-09-12'', ''2023-08-15''] \<noteq> []
   \<and> card {i. i < length [''2024-08-01'', ''2024-09-12'', ''2023-08-15'']
              \<and> isoLocalYearMonth ([''2024-08-01'', ''2024-09-12'', ''2023-08-15''] ! i @ ''T00:00:00'')
                  = Some (2024, 7)} = 1
   \<and> calculateCurrentMonthIncome isoLocalYearMonth 7 2024 1500 ''bi-weekly''
        [''2024-08-01'', ''2024-09-12'', ''2023-08-15''] = 1500"
proof -
  let ?ds = "[''2024-08-01'', ''2024-09-12'', ''2023-08-15'']"
  let ?P = "\<lambda>d. isoLocalYearMonth (d @ ''T00:00:00'') = Some (2024, 7)"
  have ne: "?ds \<noteq> []" by simp
  have "card {i. i < length ?ds \<and> ?P (?ds ! i)} = length (filter ?P ?ds)"
    by (rule length_filter_conv_card [symmetric])
  also have "\<dots> = 1" by (simp add: parsed_dates)
  finally have c: "card {i. i < length ?ds \<and> ?P (?ds ! i)} = 1" .
  from current_month_income [of ?ds isoLocalYearMonth 7 2024 1500 "''bi-weekly''"] ne
  have "calculateCurrentMonthIncome isoLocalYearMonth 7 2024 1500 ''bi-weekly'' ?ds
          = 1500 * real (card {i. i < length ?ds \<and> ?P (?ds ! i)})"
    by blast
  with c ne show ?thesis by simp
qed


section \<open>Account cash flow: properties\<close>

lemma overflowBound_large: "10 ^ 300 < overflowBound"
  by (simp add: overflowBound_def)

lemma overflowBound_pos: "0 < overflowBound"
  using overflowBound_large by (simp add: order.strict_trans[of 0 "10^300"])

lemma js_overflow_in_range:
  "\<bar>x\<bar> < overflowBound \<Longrightarrow> js_overflow (Fin x) = Fin x"
  by (auto simp: abs_less_iff)

lemma js_overflow_small:
  "\<bar>x\<bar> < 1000000 \<Longrightarrow> js_overflow (Fin x) = Fin x"
proof -
  assume "\<bar>x\<bar> < 1000000"
  moreover have "(1000000::real) \<le> 10 ^ 300"
    using power_increasing [of 6 300 "10::real"] by simp
  ultimately have "\<bar>x\<bar> < overflowBound"
    using overflowBound_large by linarith
  then show ?thesis by (rule js_overflow_in_range)
qed

lemma overflowBound_below: "overflowBound \<le> 2 * 10 ^ 308"
  by (simp add: overflowBound_def)

lemma js_overflow_huge:
  "2 * 10 ^ 308 \<le> x \<Longrightarrow> js_overflow (Fin x) = PosInf"
  using overflowBound_below by simp

lemmas balance_defs = calculateAccountBalances_def accountBalanceInfo_def monthlyIncomeNum_def
  billMonthlyNum_def num_plus_def num_times_def num_divide_def num_minus_def
  js_overflow_small js_overflow_huge Let_def

lemma scaled_in_range:
  assumes "\<bar>x\<bar> * 52 < overflowBound" "0 \<le> k" "k \<le> 52"
  shows "\<bar>x * k\<bar> < overflowBound"
proof -
  have "\<bar>x * k\<bar> = \<bar>x\<bar> * k" using assms(2) by (simp add: abs_mult)
  also have "\<dots> \<le> \<bar>x\<bar> * 52" using assms(3) by (simp add: mult_left_mono)
  finally show ?thesis using assms(1) by simp
qed

lemma times_then_divide_in_range:
  assumes "\<bar>x\<bar> * 52 < overflowBound" "0 \<le> k" "k \<le> 52" "1 \<le> d"
  shows "num_divide (num_times (Fin x) (Fin k)) (Fin d) = Fin (x * k / d)"
proof -
  have r: "\<bar>x * k\<bar> < overflowBound" using assms(1-3) by (rule scaled_in_range)
  have "\<bar>x * k / d\<bar> = \<bar>x * k\<bar> / d" using assms(4) by simp
  also have "\<dots> \<le> \<bar>x * k\<bar>"
    using assms(4) mult_left_mono [of 1 d "\<bar>x * k\<bar>"] by (simp add: divide_le_eq)
  finally have "\<bar>x * k / d\<bar> < overflowBound" using r by simp
  moreover have "d \<noteq> 0" using assms(4) by simp
  ultimately show ?thesis
    using r by (simp add: num_divide_def num_times_def js_overflow_in_range del: js_overflow.simps(1))
qed

text \<open>
  Inside the range the switches with overflow return what the exact switches return.
\<close>

lemma monthlyIncomeNum_exact:
  assumes "\<bar>amount\<bar> * 52 < overflowBound"
  shows "monthlyIncomeNum amount frequency = Fin (calculateMonthlyIncome amount frequency)"
proof -
  have "num_times (Fin amount) (Fin 2) = Fin (amount * 2)"
    using scaled_in_range [OF assms, of 2]
    by (simp add: num_times_def js_overflow_in_range del: js_overflow.simps(1))
  then show ?thesis
    using times_then_divide_in_range [OF assms, of 52 12]
          times_then_divide_in_range [OF assms, of 26 12]
    by (simp add: monthlyIncomeNum_def calculateMonthlyIncome_def)
qed

lemma billMonthlyNum_exact:
  assumes "\<bar>amount\<bar> * 52 < overflowBound"
  shows "billMonthlyNum amount frequency = Fin (billMonthlyAmount amount frequency)"
proof -
  have "num_divide (num_times (Fin amount) (Fin 1)) (Fin 3) = Fin (amount * 1 / 3)"
       "num_divide (num_times (Fin amount) (Fin 1)) (Fin 12) = Fin (amount * 1 / 12)"
    using assms by (intro times_then_divide_in_range; simp)+
  moreover have "num_times (Fin amount) (Fin 1) = Fin amount"
    using scaled_in_range [OF assms, of 1]
    by (simp add: num_times_def js_overflow_in_range del: js_overflow.simps(1))
  ultimately have "num_divide (Fin amount) (Fin 3) = Fin (amount / 3)"
       "num_divide (Fin amount) (Fin 12) = Fin (amount / 12)"
    by simp_all
  then show ?thesis
    using times_then_divide_in_range [OF assms, of 52 12]
          times_then_divide_in_range [OF assms, of 26 12]
    by (simp add: billMonthlyNum_def billMonthlyAmount_def)
qed

lemma accountBalanceInfo_utilization:
  "utilization (accountBalanceInfo income bills account) =
     (if js_less (Fin 0) (monthlyInflow (accountBalanceInfo income bills account))
      then num_times (num_divide (monthlyOutflow (accountBalanceInfo income bills account))
                                 (monthlyInflow (accountBalanceInfo income bills account)))
                     (Fin 100)
      else Fin 0)"
  by (simp add: accountBalanceInfo_def Let_def)

lemma abs_le_times_100: "\<bar>x :: real\<bar> \<le> \<bar>x * 100\<bar>"
  by (simp add: abs_mult)

lemma quotient_in_range:
  assumes "0 < a" "\<bar>b / a * 100\<bar> < overflowBound"
  shows "num_times (num_divide (Fin b) (Fin a)) (Fin 100) = Fin (b / a * 100)"
proof -
  have "\<bar>b / a\<bar> \<le> \<bar>b / a * 100\<bar>" by (rule abs_le_times_100)
  with assms(2) have "\<bar>b / a\<bar> < overflowBound" by simp
  then have "num_divide (Fin b) (Fin a) = Fin (b / a)"
    using assms(1) by (simp add: num_divide_def js_overflow_in_range del: js_overflow.simps(1))
  then show ?thesis
    using assms(2) by (simp add: num_times_def js_overflow_in_range del: js_overflow.simps(1))
qed

text \<open>
  C9, as the code has it: the balances come one per account, in order. The utilization
  of an account is exactly 0 when its inflow is 0, and it is outflow / inflow * 100, a
  finite number, when inflow and outflow are finite, the inflow is positive and the
  quotient times 100 stays inside the range of the number format.
\<close>

theorem utilization_of_account:
  assumes "i < length accounts"
  shows "length (calculateAccountBalances accounts bills settings) = length accounts
       \<and> accountId (calculateAccountBalances accounts bills settings ! i) = a_id (accounts ! i)
       \<and> (monthlyInflow (calculateAccountBalances accounts bills settings ! i) = Fin 0
            \<longrightarrow> utilization (calculateAccountBalances accounts bills settings ! i) = Fin 0)
       \<and> (monthlyInflow (calculateAccountBalances accounts bills settings ! i) = Fin inflow
            \<and> monthlyOutflow (calculateAccountBalances accounts bills settings ! i) = Fin outflow
            \<and> 0 < inflow \<and> \<bar>outflow / inflow * 100\<bar> < overflowBound
            \<longrightarrow> utilization (calculateAccountBalances accounts bills settings ! i)
                  = Fin (outflow / inflow * 100))"
proof -
  let ?income = "monthlyIncomeNum (paycheckAmount settings) (payFrequency settings)"
  let ?info = "accountBalanceInfo ?income bills (accounts ! i)"
  have info: "calculateAccountBalances accounts bills settings ! i = ?info"
    using assms by (simp add: calculateAccountBalances_def)
  have "length (calculateAccountBalances accounts bills settings) = length accounts"
    by (simp add: calculateAccountBalances_def)
  moreover have "accountId ?info = a_id (accounts ! i)"
    by (simp add: accountBalanceInfo_def Let_def)
  moreover have "monthlyInflow ?info = Fin 0 \<longrightarrow> utilization ?info = Fin 0"
    by (simp add: accountBalanceInfo_utilization)
  moreover have "monthlyInflow ?info = Fin inflow \<and> monthlyOutflow ?info = Fin outflow
            \<and> 0 < inflow \<and> \<bar>outflow / inflow * 100\<bar> < overflowBound
            \<longrightarrow> utilization ?info = Fin (outflow / inflow * 100)"
  proof (intro impI, elim conjE)
    assume a: "monthlyInflow ?info = Fin inflow" "monthlyOutflow ?info = Fin outflow"
      "0 < inflow" "\<bar>outflow / inflow * 100\<bar> < overflowBound"
    have "utilization ?info = num_times (num_divide (Fin outflow) (Fin inflow)) (Fin 100)"
      by (subst accountBalanceInfo_utilization) (simp add: a(1,2,3))
    also have "\<dots> = Fin (outflow / inflow * 100)"
      by (rule quotient_in_range [OF a(3,4)])
    finally show "utilization ?info = Fin (outflow / inflow * 100)" .
  qed
  ultimately show ?thesis
    unfolding info by blast
qed

lemma sample_balances:
  "calculateAccountBalances [billsAccount, spareAccount] [rentBill] biweeklySettings =
     [\<lparr> accountId = ''bills'', accountName = ''Bills'', startingBalance = 0,
         monthlyInflow = Fin (650 / 3), monthlyOutflow = Fin 500,
         endingBalance = Fin (- (850 / 3)), billsCount = 1, utilization = Fin (3000 / 13) \<rparr>,
      \<lparr> accountId = ''spare'', accountName = ''Spare'', startingBalance = 50,
         monthlyInflow = Fin 0, monthlyOutflow = Fin 0, endingBalance = Fin 50,
         billsCount = 0, utilization = Fin 0 \<rparr>]"
  by (simp add: balance_defs billsAccount_def spareAccount_def rentBill_def biweeklySettings_def
        del: js_overflow.simps(1))

theorem utilization_of_account_witness:
  "(0::nat) < length [billsAccount, spareAccount]
   \<and> monthlyInflow (calculateAccountBalances [billsAccount, spareAccount] [rentBill] biweeklySettings ! 0)
       = Fin (650 / 3)
   \<and> monthlyOutflow (calculateAccountBalances [billsAccount, spareAccount] [rentBill] biweeklySettings ! 0)
       = Fin 500
   \<and> utilization (calculateAccountBalances [billsAccount, spareAccount] [rentBill] biweeklySettings ! 0)
       = Fin (500 / (650 / 3) * 100)
   \<and> (1::nat) < length [billsAccount, spareAccount]
   \<and> monthlyInflow (calculateAccountBalances [billsAccount, spareAccount] [rentBill] biweeklySettings ! 1)
       = Fin 0
   \<and> utilization (calculateAccountBalances [billsAccount, spareAccount] [rentBill] biweeklySettings ! 1)
       = Fin 0"
proof -
  let ?bs = "calculateAccountBalances [billsAccount, spareAccount] [rentBill] biweeklySettings"
  have l0: "(0::nat) < length [billsAccount, spareAccount]"
    and l1: "(1::nat) < length [billsAccount, spareAccount]" by simp_all
  have in0: "monthlyInflow (?bs ! 0) = Fin (650 / 3)" and out0: "monthlyOutflow (?bs ! 0) = Fin 500"
    and in1: "monthlyInflow (?bs ! 1) = Fin 0"
    by (simp_all add: sample_balances)
  have range: "\<bar>500 / (650 / 3) * 100 :: real\<bar> < overflowBound"
    using overflowBound_large by simp
  from utilization_of_account [OF l0, of "[rentBill]" biweeklySettings "650 / 3" 500] in0 out0 range
  have "utilization (?bs ! 0) = Fin (500 / (650 / 3) * 100)" by simp
  moreover from utilization_of_account [OF l1, of "[rentBill]" biweeklySettings] in1
  have "utilization (?bs ! 1) = Fin 0" by blast
  ultimately show ?thesis using l0 l1 in0 out0 in1 by blast
qed

text \<open>
  C9 as stated fails: the division by zero is guarded, overflow is not. A weekly bill of
  \<open>10^308\<close> on the account \<open>Bills\<close> overflows in \<open>amount * 52\<close>, so the
  outflow is infinite and, with a positive finite inflow, so is the utilization. With a
  weekly paycheck of \<open>10^308\<close> as well the inflow is infinite too and the
  utilization is \<open>NaN\<close>.
\<close>

theorem utilization_overflow_counterexample:
  "monthlyInflow (hd (calculateAccountBalances [billsAccount] [hugeBill] biweeklySettings))
     = Fin (650 / 3)
   \<and> utilization (hd (calculateAccountBalances [billsAccount] [hugeBill] biweeklySettings))
     = PosInf
   \<and> utilization (hd (calculateAccountBalances [billsAccount] [hugeBill] hugeSettings)) = NaN"
  by (simp add: balance_defs billsAccount_def hugeBill_def biweeklySettings_def hugeSettings_def
        del: js_overflow.simps(1))


section \<open>Budget recommendations: properties\<close>

lemma zero_over_positive:
  "js_less (Fin 0) v \<Longrightarrow> num_times (num_divide (Fin 0) v) (Fin 100) = Fin 0"
  by (cases v)
     (simp_all add: num_times_def num_divide_def js_overflow_small del: js_overflow.simps(1))

lemma no_bills_utilization:
  "utilization (accountBalanceInfo income [] account) = Fin 0"
  by (simp add: accountBalanceInfo_def Let_def zero_over_positive)

lemma no_bills_no_warning:
  "foldl (\<lambda>recommendations balance.
            if js_less (Fin 90) (utilization balance)
            then recommendations @ [utilizationWarning balance]
            else recommendations)
         rs (map (accountBalanceInfo income []) accounts) = rs"
  by (induction accounts arbitrary: rs) (simp_all add: no_bills_utilization)

text \<open>
  The recommendation operation never emits a per-account warning: it computes the
  balances from an empty bill list, so every utilization it sees is 0.
\<close>

lemma recommendations_global_only:
  "getBudgetRecommendations formatPercentage accounts totalAllocated
     = allocationChecks formatPercentage totalAllocated"
  by (simp add: getBudgetRecommendations_def calculateAccountBalances_def Let_def
        no_bills_no_warning)

text \<open>
  C5 on a concrete input: the account \<open>Bills\<close> receives 10 percent of a bi-weekly
  paycheck of 1000 and carries a monthly bill of 500, so the cash-flow projector gives it
  a utilization of 3000/13, about 231 percent. The recommendations for the same account
  at 85 percent allocated are empty: no utilization warning is emitted.
\<close>

theorem utilization_warning_missing:
  "map utilization (calculateAccountBalances [billsAccount] [rentBill] biweeklySettings) = [Fin (3000 / 13)]
   \<and> js_less (Fin 90) (Fin (3000 / 13))
   \<and> getBudgetRecommendations formatPercentage [billsAccount] 85 = []"
proof -
  have "map utilization (calculateAccountBalances [billsAccount] [rentBill] biweeklySettings) = [Fin (3000 / 13)]"
    by (simp add: balance_defs billsAccount_def rentBill_def biweeklySettings_def
          del: js_overflow.simps(1))
  moreover have "getBudgetRecommendations formatPercentage [billsAccount] 85 = []"
    by (simp add: recommendations_global_only allocationChecks_def)
  ultimately show ?thesis by simp
qed


section \<open>Closed-form payoff helpers: properties\<close>

text \<open>
  C3 on the specification's scenario: balance 3500, payment 50, rate 18.99 percent. The
  payment is below the monthly interest and the helper returns \<open>NaN\<close>, the value of
  \<open>Math.log\<close> at a negative argument; no branch of the helper detects the case.
\<close>

theorem payoff_time_unpayable_is_NaN:
  "calculatePayoffTime 3500 50 18.99 = NaN"
  by (simp add: calculatePayoffTime_def js_log_def Let_def)

lemma js_max_zero_not_negative: "\<not> js_less (js_max (Fin 0) v) (Fin 0)"
  by (cases v) simp_all

lemma js_max_zero_clamps: "js_less v (Fin 0) \<Longrightarrow> js_max (Fin 0) v = Fin 0"
  by (cases v) simp_all

text \<open>
  C10: the total-interest helper never returns a negative value, and an input whose raw
  estimate (payoff months times payment, minus balance) is negative yields exactly 0.
\<close>

theorem total_interest_not_negative:
  "\<not> js_less (calculateTotalInterest balance monthlyPayment interestRate) (Fin 0)
   \<and> (js_less (js_minus (js_times (calculatePayoffTime balance monthlyPayment interestRate)
                                  (Fin monthlyPayment)) (Fin balance)) (Fin 0)
        \<longrightarrow> calculateTotalInterest balance monthlyPayment interestRate = Fin 0)"
  by (simp add: calculateTotalInterest_def Let_def js_max_zero_not_negative js_max_zero_clamps)

theorem total_interest_not_negative_witness:
  "js_less (js_minus (js_times (calculatePayoffTime 100 0 5) (Fin 0)) (Fin 100)) (Fin 0)
   \<and> calculateTotalInterest 100 0 5 = Fin 0"
proof -
  have h: "js_less (js_minus (js_times (calculatePayoffTime 100 0 5) (Fin 0)) (Fin 100)) (Fin 0)"
    by (simp add: calculatePayoffTime_def)
  with total_interest_not_negative [of 100 0 5] show ?thesis by blast
qed



section \<open>Goal progress: properties\<close>

lemma progress_below_target:
  assumes "c < t"
  shows "js_ge (js_min (js_times (js_divide (Fin c) (Fin t)) (Fin 100)) (Fin 100)) (Fin 100)
           = (t < 0)"
proof (cases "t = 0")
  case True
  with assms show ?thesis by simp
next
  case False
  show ?thesis
  proof (cases "0 < t")
    case True
    with assms have "c / t * 100 < 100" by (simp add: field_simps)
    with True False show ?thesis by simp
  next
    case neg: False
    with False have "t < 0" by simp
    with assms have "100 < c / t * 100" by (simp add: field_simps)
    with \<open>t < 0\<close> False show ?thesis by simp
  qed
qed

text \<open>
  C6, as the code has it: at a zero horizon the required monthly contribution is taken
  as 0, so a goal below its target is on track exactly when its monthly contribution is
  not negative (or its target amount is negative, which caps the progress at 100).
\<close>

theorem zero_horizon_on_track:
  assumes "monthsRemaining (calculateGoalProgress timeOf now goal) = Fin 0"
    and "g_currentAmount goal < g_targetAmount goal"
  shows "onTrack (calculateGoalProgress timeOf now goal)
           = (0 \<le> g_monthlyContribution goal \<or> g_targetAmount goal < 0)"
proof -
  let ?months = "js_max (Fin 0)
                     (js_ceil (js_divide (js_minus (case timeOf (g_targetDate goal) of
                          None \<Rightarrow> NaN | Some t \<Rightarrow> Fin (real_of_int t)) (Fin (real_of_int now)))
                                         (Fin (1000 * 60 * 60 * 24 * 30))))"
  from assms(1) have m: "?months = Fin 0"
    by (simp add: calculateGoalProgress_def Let_def)
  show ?thesis
    unfolding calculateGoalProgress_def Let_def
    using m progress_below_target [OF assms(2)]
    by (simp add: not_less)
qed

lemma january_first: "isoUtcTime ''2024-01-01'' = Some 1704067200000"
  by (simp add: isoUtcTime_def parseISODate_def digitVal_def daysInMonth_def daysFromCivil_def leapYear_def)

lemma overdueGoal_progress:
  "calculateGoalProgress isoUtcTime 1722470400000 overdueGoal
     = \<lparr> progressPercentage = Fin 50, monthsRemaining = Fin 0, onTrack = True \<rparr>"
  by (simp add: calculateGoalProgress_def overdueGoal_def january_first)

text \<open>
  C6 as stated fails: a goal of 1000 with 500 saved, 100 contributed monthly and the
  target date 2024-01-01, read on 2024-08-01, has 0 months remaining and is reported on
  track.
\<close>

theorem zero_horizon_counterexample:
  "monthsRemaining (calculateGoalProgress isoUtcTime 1722470400000 overdueGoal) = Fin 0
   \<and> g_currentAmount overdueGoal < g_targetAmount overdueGoal
   \<and> onTrack (calculateGoalProgress isoUtcTime 1722470400000 overdueGoal)"
  by (simp add: overdueGoal_progress) (simp add: overdueGoal_def)

theorem zero_horizon_on_track_witness:
  "monthsRemaining (calculateGoalProgress isoUtcTime 1722470400000 overdueGoal) = Fin 0
   \<and> g_currentAmount overdueGoal < g_targetAmount overdueGoal
   \<and> onTrack (calculateGoalProgress isoUtcTime 1722470400000 overdueGoal)
       = (0 \<le> g_monthlyContribution overdueGoal \<or> g_targetAmount overdueGoal < 0)"
proof -
  have h1: "monthsRemaining (calculateGoalProgress isoUtcTime 1722470400000 overdueGoal) = Fin 0"
    by (simp add: overdueGoal_progress)
  have h2: "g_currentAmount overdueGoal < g_targetAmount overdueGoal"
    by (simp add: overdueGoal_def)
  from zero_horizon_on_track [OF h1 h2] h1 h2 show ?thesis by simp
qed



section \<open>Debt payoff simulation: properties\<close>

lemmas sim_defs = calculateDebtSnowball_def calculateDebtAvalanche_def
  calculateDebtPayoffStrategy_def initialState_def payoffLoop.simps monthPass_def payDebt_def
  paymentFor_def anyUnpaid_def Debt.extend_def Let_def

lemma findIndex_first:
  "findIndex P xs = int k \<Longrightarrow> k < length xs \<and> P (xs ! k) \<and> (\<forall>j<k. \<not> P (xs ! j))"
proof (induction xs arbitrary: k)
  case Nil
  then show ?case by simp
next
  case (Cons x xs)
  show ?case
  proof (cases "P x")
    case True
    with Cons.prems show ?thesis by simp
  next
    case False
    with Cons.prems have nn: "\<not> findIndex P xs < 0" and eq: "findIndex P xs + 1 = int k"
      by (auto simp: Let_def split: if_splits)
    then obtain k' where k': "k = Suc k'" "findIndex P xs = int k'"
      by (cases k) auto
    from Cons.IH [OF k'(2)] False k'(1) show ?thesis
      by (auto simp: nth_Cons split: nat.splits)
  qed
qed

lemma skip_paid_prefix:
  assumes "k \<le> length (workingDebts st)" "\<forall>j<k. remainingBalance (workingDebts st ! j) \<le> 0"
  shows "fold (payDebt e) [0..<k] st = st"
  using assms
proof (induction k)
  case 0
  then show ?case by simp
next
  case (Suc k)
  then have "fold (payDebt e) [0..<k] st = st" by simp
  moreover have "payDebt e k st = st" using Suc.prems by (simp add: payDebt_def)
  ultimately show ?case by simp
qed

text \<open>
  In every month the debts before the first unpaid one are skipped, so the first unpaid
  debt is visited with \<open>freedUpPayment\<close> still 0: its payment is its minimum plus the
  extra payment, capped at balance plus interest, whatever was paid off in earlier
  months.
\<close>

lemma target_payment_has_no_rollover:
  assumes "findIndex (\<lambda>d. 0 < remainingBalance d) (workingDebts st) = int k"
  shows "monthPass e st =
           fold (payDebt e) [Suc k ..< length (workingDebts st)]
             (payDebt e k (st\<lparr> month := month st + 1, freedUpPayment := 0 \<rparr>))
       \<and> paymentFor e (st\<lparr> month := month st + 1, freedUpPayment := 0 \<rparr>) k
           = min (d_minimumPayment (workingDebts st ! k) + e)
                 (remainingBalance (workingDebts st ! k)
                   + (remainingBalance (workingDebts st ! k)
                       * d_interestRate (workingDebts st ! k) / 100) / 12)"
proof -
  let ?st0 = "st\<lparr> month := month st + 1, freedUpPayment := 0 \<rparr>"
  from findIndex_first [OF assms] have k: "k < length (workingDebts st)"
    and paid: "\<forall>j<k. remainingBalance (workingDebts st ! j) \<le> 0"
    by (auto simp: not_less)
  have "[0..<length (workingDebts st)] = [0..<k] @ k # [Suc k..<length (workingDebts st)]"
    using k by (metis less_imp_le_nat upt_add_eq_append upt_conv_Cons le0 le_add_diff_inverse)
  moreover have "fold (payDebt e) [0..<k] ?st0 = ?st0"
    using k paid by (intro skip_paid_prefix) simp_all
  ultimately have "monthPass e st =
           fold (payDebt e) [Suc k ..< length (workingDebts st)] (payDebt e k ?st0)"
    by (simp add: monthPass_def)
  moreover have "paymentFor e ?st0 k
           = min (d_minimumPayment (workingDebts st ! k) + e)
                 (remainingBalance (workingDebts st ! k)
                   + (remainingBalance (workingDebts st ! k)
                       * d_interestRate (workingDebts st ! k) / 100) / 12)"
    using assms by (simp add: paymentFor_def Let_def)
  ultimately show ?thesis by simp
qed

text \<open>
  C1 on a concrete input: a card (balance 100, minimum 100) and a loan (balance 1000,
  minimum 100), both at rate 0, no extra payment. The card is paid off in month 1. In
  month 2 the loan is the first unpaid debt and its payment is 100, its own minimum: the
  card's freed minimum is not added, the balance goes from 800 to 700 and the run takes
  9 months. In month 1 the loan was paid 200, while the card was being paid in the same
  month.
\<close>

theorem freed_payment_not_carried:
  "calculateDebtPayoffStrategy [cardDebt, loanDebt] 0 ''Debt Snowball'' =
     Some \<lparr> strategyName = ''Debt Snowball'', resultInterest = 0, payoffTime = 9,
            resultPayments = [(''card'', 100), (''loan'', 200)],
            resultTimeline =
              [(1, ''card'', 0), (1, ''loan'', 800), (2, ''loan'', 700), (3, ''loan'', 600),
               (4, ''loan'', 500), (5, ''loan'', 400), (6, ''loan'', 300), (7, ''loan'', 200),
               (8, ''loan'', 100), (9, ''loan'', 0)] \<rparr>
   \<and> paymentFor 0 ((monthPass 0 (initialState [cardDebt, loanDebt]))
                       \<lparr> month := 2, freedUpPayment := 0 \<rparr>) 1 = 100"
  by (simp add: sim_defs cardDebt_def loanDebt_def)

text \<open>
  A run whose states all satisfy a property that implies an unpaid debt never leaves
  the loop.
\<close>

lemma payoffLoop_diverges:
  assumes step: "\<And>s. I s \<Longrightarrow> anyUnpaid s \<and> I (monthPass e s)"
    and init: "I s0"
  shows "payoffLoop e s0 = None"
proof (cases "payoffLoop e s0")
  case None
  then show ?thesis .
next
  case (Some t)
  have "e = e \<longrightarrow> \<not> I s0"
  proof (rule payoffLoop.raw_induct [where P = "\<lambda>e' s t. e' = e \<longrightarrow> \<not> I s", OF _ Some])
    fix loop e' s t
    assume IH: "\<And>e'' s' t'. loop e'' s' = Some t' \<Longrightarrow> e'' = e \<longrightarrow> \<not> I s'"
      and run: "(if anyUnpaid s then loop e' (monthPass e' s) else Some s) = Some t"
    show "e' = e \<longrightarrow> \<not> I s"
    proof (intro impI notI)
      assume e: "e' = e" and "I s"
      with step have "anyUnpaid s" "I (monthPass e s)" by auto
      with run e have "loop e (monthPass e s) = Some t" by simp
      from IH [OF this] \<open>I (monthPass e s)\<close> show False by simp
    qed
  qed
  with init show ?thesis by simp
qed

lemma stuckAbove_step:
  assumes "0 < b" "0 \<le> r" "m + e \<le> b * r / 100 / 12" "stuckAbove b m r s"
  shows "anyUnpaid s \<and> stuckAbove b m r (monthPass e s)"
proof -
  from assms(4) obtain w where w: "workingDebts s = [w]" "b \<le> remainingBalance w"
     "d_minimumPayment w = m" "d_interestRate w = r"
    by (auto simp: stuckAbove_def split: list.splits)
  let ?B = "remainingBalance w"
  have pos: "0 < ?B" using assms(1) w(2) by simp
  have "b * r \<le> ?B * r" using w(2) assms(2) by (simp add: mult_right_mono)
  then have le: "m + e \<le> ?B * r / 100 / 12" using assms(3) by simp
  have "0 \<le> ?B * r" using pos assms(2) by simp
  with le pos have cap: "m + e \<le> ?B + ?B * r / 1200" by simp
  have "anyUnpaid s" using w pos by (simp add: anyUnpaid_def)
  moreover have "stuckAbove b m r (monthPass e s)"
    using w pos le cap
    by (simp add: stuckAbove_def monthPass_def payDebt_def paymentFor_def Let_def min_def max_def)
  ultimately show ?thesis by simp
qed

text \<open>
  In exact arithmetic, a single debt with a positive balance whose minimum payment plus
  the extra payment does not exceed the first month's interest is never paid off: the
  simulation does not return.
\<close>

lemma unpayable_single_debt_diverges:
  assumes "0 < d_currentBalance debt" "0 \<le> d_interestRate debt"
    and "d_minimumPayment debt + extraPayment
           \<le> d_currentBalance debt * d_interestRate debt / 100 / 12"
  shows "calculateDebtPayoffStrategy [debt] extraPayment name = None"
proof -
  let ?I = "stuckAbove (d_currentBalance debt) (d_minimumPayment debt) (d_interestRate debt)"
  have "payoffLoop extraPayment (initialState [debt]) = None"
  proof (rule payoffLoop_diverges [where I = ?I])
    show "?I (initialState [debt])"
      by (simp add: stuckAbove_def initialState_def Debt.extend_def)
    show "anyUnpaid s \<and> ?I (monthPass extraPayment s)" if "?I s" for s
      using assms that by (rule stuckAbove_step)
  qed
  then show ?thesis by (simp add: calculateDebtPayoffStrategy_def)
qed

text \<open>
  C2 on a concrete input: a single debt of 5000 at 24 percent (100 of interest in the
  first month) with a minimum payment of 50. The balance grows every month, the loop
  condition stays true and the simulation never returns: there is no iteration bound and
  no unpayable-debt result.
\<close>

theorem unpayable_debt_never_returns:
  "calculateDebtPayoffStrategy [growingDebt] 0 ''Debt Snowball'' = None"
  by (rule unpayable_single_debt_diverges) (simp_all add: growingDebt_def)

text \<open>
  C8 on a concrete input: the car loan (300 at 12 percent, minimum 100) and the card
  (100 at 0 percent, minimum 100), no extra payment. In the snowball order the card comes
  first, is paid off in month 1 and its freed minimum is handed to the car loan inside
  that month; in the avalanche order the card comes last and its freed minimum is lost,
  because \<open>freedUpPayment\<close> starts every month at 0. The snowball run takes 3 months
  and 4.0703 of interest, the avalanche run 4 months and 6.141103.
\<close>

theorem snowball_avalanche_differ:
  "map_option resultInterest (calculateDebtSnowball [carDebt, cardDebt] 0) = Some (40703 / 10000)
   \<and> map_option payoffTime (calculateDebtSnowball [carDebt, cardDebt] 0) = Some 3
   \<and> map_option resultTimeline (calculateDebtSnowball [carDebt, cardDebt] 0)
       = Some [(1, ''card'', 0), (1, ''car'', 103), (2, ''car'', 403 / 100), (3, ''car'', 0)]
   \<and> map_option resultInterest (calculateDebtAvalanche [carDebt, cardDebt] 0)
       = Some (6141103 / 1000000)
   \<and> map_option payoffTime (calculateDebtAvalanche [carDebt, cardDebt] 0) = Some 4
   \<and> map_option resultTimeline (calculateDebtAvalanche [carDebt, cardDebt] 0)
       = Some [(1, ''car'', 203), (1, ''card'', 0), (2, ''car'', 10503 / 100),
               (3, ''car'', 60803 / 10000), (4, ''car'', 0)]"
  by (simp add: sim_defs carDebt_def cardDebt_def)

end
